theory Spec2Isabelle
  imports Complex_Main "HOL-Library.AList"
begin

section \<open>JavaScript values used by the lead scoring service\<close>

text \<open>
  Strings are character lists. \<open>toLowerCase\<close> maps the ASCII capitals to their lower-case
  letters and leaves every other character alone; \<open>str_includes s k\<close> is
  \<^verbatim>\<open>s.includes(k)\<close> (\<open>k\<close> occurs as a contiguous run of \<open>s\<close>); \<open>str_split sep s\<close> is
  \<^verbatim>\<open>s.split(sep)\<close> for a one-character separator.
\<close>

definition toLowerChar :: "char \<Rightarrow> char" where
  "toLowerChar c =
     (case map_of (zip ''ABCDEFGHIJKLMNOPQRSTUVWXYZ'' ''abcdefghijklmnopqrstuvwxyz'') c of
        Some d \<Rightarrow> d
      | None \<Rightarrow> c)"

definition toLowerCase :: "string \<Rightarrow> string" where
  "toLowerCase s = map toLowerChar s"

fun starts_with :: "string \<Rightarrow> string \<Rightarrow> bool" where
  "starts_with s [] = True"
| "starts_with [] (k # ks) = False"
| "starts_with (c # cs) (k # ks) = (c = k \<and> starts_with cs ks)"

fun str_includes :: "string \<Rightarrow> string \<Rightarrow> bool" where
  "str_includes [] k = (k = [])"
| "str_includes (c # cs) k = (starts_with (c # cs) k \<or> str_includes cs k)"

fun str_split :: "char \<Rightarrow> string \<Rightarrow> string list" where
  "str_split sep [] = [[]]"
| "str_split sep (c # cs) =
     (if c = sep then [] # str_split sep cs
      else (case str_split sep cs of
              p # ps \<Rightarrow> (c # p) # ps
            | [] \<Rightarrow> [[c]]))"

fun nth_opt :: "'a list \<Rightarrow> nat \<Rightarrow> 'a option" where
  "nth_opt [] n = None"
| "nth_opt (x # xs) 0 = Some x"
| "nth_opt (x # xs) (Suc n) = nth_opt xs n"

text \<open>
  \<open>show_int\<close> is the decimal text a template literal gives for an integer.
\<close>

definition digit_char :: "nat \<Rightarrow> char" where
  "digit_char d = ''0123456789'' ! d"

fun show_nat :: "nat \<Rightarrow> string" where
  "show_nat n =
     (if 10 \<le> n then show_nat (n div 10) @ [digit_char (n mod 10)]
      else [digit_char n])"

declare show_nat.simps [simp del]

definition show_int :: "int \<Rightarrow> string" where
  "show_int i = (if 0 \<le> i then show_nat (nat i) else CHR ''-'' # show_nat (nat (- i)))"

text \<open>
  An optional property of a JavaScript object is \<open>Undefined\<close>, \<open>Null\<close> or holds a value.
  \<open>truthy\<close> is the test \<^verbatim>\<open>if (x)\<close> on a string-valued property: the empty string is
  falsy as well. \<open>nullish_or a b\<close> is \<^verbatim>\<open>a ?? b\<close> and \<open>logical_or a b\<close> is \<^verbatim>\<open>a || b\<close>.
\<close>

datatype 'a nullable = Undefined | Null | Defined 'a

fun truthy :: "string nullable \<Rightarrow> bool" where
  "truthy (Defined s) = (s \<noteq> [])"
| "truthy Undefined = False"
| "truthy Null = False"

fun nullish_or :: "'a nullable \<Rightarrow> 'a nullable \<Rightarrow> 'a nullable" where
  "nullish_or (Defined x) b = Defined x"
| "nullish_or Undefined b = b"
| "nullish_or Null b = b"

definition logical_or :: "string nullable \<Rightarrow> string nullable \<Rightarrow> string nullable" where
  "logical_or a b = (if truthy a then a else b)"

text \<open>
  Numbers: the points of a signal are integers; a weight or a threshold is a finite
  number, modelled as a rational, and products are exact. \<open>Math_round\<close> rounds to the
  nearest integer, a tie going up, as \<^verbatim>\<open>Math.round\<close> does.
\<close>

definition Math_round :: "rat \<Rightarrow> int" where
  "Math_round x = \<lfloor>x + 1 / 2\<rfloor>"

text \<open>
  The numbers a mapper reads from a payload keep the special values, since the mappers
  test for them: a comparison with \<open>NaN\<close> is false.
\<close>

datatype number = NaN | NegInfinity | Finite rat | PosInfinity

fun num_lt :: "number \<Rightarrow> rat \<Rightarrow> bool" where
  "num_lt NaN b = False"
| "num_lt NegInfinity b = True"
| "num_lt (Finite a) b = (a < b)"
| "num_lt PosInfinity b = False"

fun num_le :: "number \<Rightarrow> rat \<Rightarrow> bool" where
  "num_le NaN b = False"
| "num_le NegInfinity b = True"
| "num_le (Finite a) b = (a \<le> b)"
| "num_le PosInfinity b = False"

fun isNaN :: "number \<Rightarrow> bool" where
  "isNaN NaN = True"
| "isNaN NegInfinity = False"
| "isNaN (Finite a) = False"
| "isNaN PosInfinity = False"

datatype json =
  JNull
| JBool bool
| JNum number
| JStr string
| JArr "json list"
| JObj "(string \<times> json) list"

section \<open>types/universal.ts\<close>

record LeadFields =
  company_name :: "string nullable"
  company_industry :: "string nullable"
  company_employee_band :: "string nullable"
  company_revenue_band :: "string nullable"
  company_region :: "string nullable"
  company_tech_stack_summary :: "(string \<times> json) list nullable"
  contact_email :: "string nullable"
  contact_first_name :: "string nullable"
  contact_last_name :: "string nullable"
  contact_role_function :: "string nullable"
  contact_role_seniority :: "string nullable"
  contact_title_raw :: "string nullable"
  contact_geo :: "string nullable"
  contact_phone :: "string nullable"
  primary_use_case :: "string nullable"
  estimated_deal_band :: "string nullable"
  urgency_band :: "string nullable"
  lead_source :: "string nullable"

text \<open>
  \<open>UniversalLeadInput\<close> has the optional fields and the required \<open>company_domain\<close>;
  \<open>Partial<UniversalLeadInput>\<close>, the result of an enrichment, has every field optional.
  The band fields hold whatever string the payload had: a value outside the enumeration
  is met at run time.
\<close>

record UniversalLeadInput = LeadFields +
  company_domain :: string

record PartialUniversalLeadInput = LeadFields +
  partial_company_domain :: "string nullable"

text \<open>
  The configuration of a tenant as the scoring engine takes it: the identifiers and the
  timestamps of a stored configuration take no part in scoring.
\<close>

record TenantScoringConfig =
  scoring_version :: string
  weight_overrides :: "string \<rightharpoonup> rat"
  priority_industries :: "string list"
  excluded_regions :: "string list"
  priority_use_cases :: "string list"
  hot_threshold :: rat
  warm_threshold :: rat

record DimensionBreakdown =
  fit :: int
  intent :: int
  timing :: int

datatype dimension = Fit | Intent | Timing

datatype phase = Raw | Enriched

type_synonym breakdown_map = "(string \<times> int) list"

record ScoreComputeResult =
  score :: int
  tier :: string
  breakdown :: breakdown_map
  reasons :: "string list"

record ScoringResult =
  score :: int
  tier :: string
  raw_score :: int
  raw_tier :: string
  enriched_score :: int
  enriched_tier :: string
  lift :: int
  scoring_version :: string
  score_breakdown :: breakdown_map
  raw_breakdown :: breakdown_map
  dimensions :: DimensionBreakdown
  reasons :: "string list"

record DualScoringInput =
  rawLead :: UniversalLeadInput
  enrichedLead :: UniversalLeadInput
  tenantConfig :: "TenantScoringConfig option"

section \<open>db/tenants.ts: the default configuration\<close>

definition getDefaultScoringConfig :: TenantScoringConfig where
  "getDefaultScoringConfig =
     \<lparr>TenantScoringConfig.scoring_version = ''v1'',
      weight_overrides = Map.empty,
      priority_industries = [],
      excluded_regions = [],
      priority_use_cases = [],
      hot_threshold = 70,
      warm_threshold = 40\<rparr>"

section \<open>services/scoring.ts: tables\<close>

definition SCORING_VERSION :: string where
  "SCORING_VERSION = ''v1''"

definition BASE_WEIGHTS :: "(string \<times> rat) list" where
  "BASE_WEIGHTS =
     [(''email_domain'', 1), (''company_size'', 1), (''revenue'', 1), (''seniority'', 1),
      (''industry'', 1), (''lead_source'', 1), (''use_case'', 1), (''urgency'', 1),
      (''deal_band'', 1)]"

definition DIMENSION_MAPPING :: "(string \<times> dimension) list" where
  "DIMENSION_MAPPING =
     [(''email_domain'', Fit), (''company_size'', Fit), (''revenue'', Fit),
      (''seniority'', Fit), (''industry'', Fit), (''region_penalty'', Fit),
      (''lead_source'', Intent), (''use_case'', Intent), (''deal_band'', Intent),
      (''urgency'', Timing)]"

definition FREE_EMAIL_DOMAINS :: "string list" where
  "FREE_EMAIL_DOMAINS =
     [''gmail.com'', ''yahoo.com'', ''outlook.com'', ''hotmail.com'',
      ''icloud.com'', ''aol.com'', ''proton.me'', ''protonmail.com'',
      ''live.com'', ''msn.com'', ''ymail.com'']"

definition HIGH_VALUE_INDUSTRIES :: "string list" where
  "HIGH_VALUE_INDUSTRIES =
     [''technology'', ''software'', ''finance'', ''healthcare'', ''saas'',
      ''fintech'', ''biotech'', ''ai'', ''machine learning'']"

definition MEDIUM_VALUE_INDUSTRIES :: "string list" where
  "MEDIUM_VALUE_INDUSTRIES =
     [''manufacturing'', ''retail'', ''consulting'', ''professional services'',
      ''media'', ''education'', ''real estate'']"

definition HIGH_QUALITY_SOURCES :: "string list" where
  "HIGH_QUALITY_SOURCES =
     [''referral'', ''partner'', ''event'', ''conference'', ''demo request'', ''inbound'']"

definition MEDIUM_QUALITY_SOURCES :: "string list" where
  "MEDIUM_QUALITY_SOURCES =
     [''website'', ''webinar'', ''content download'', ''organic'', ''seo'']"

text \<open>
  \<open>table_points t k\<close> is \<^verbatim>\<open>t[k] ?? 0\<close> on a table of points: a key the table does not
  list gives no points. (For the name of an inherited property, such as \<open>constructor\<close>,
  the lookup gives a value that is not a number; it passes no guard \<open>> 0\<close>, neither in the
  scorer nor in \<open>computeScore\<close>, which is the effect of 0 points.)
\<close>

definition table_points :: "(string \<times> int) list \<Rightarrow> string \<Rightarrow> int" where
  "table_points t k = (case map_of t k of Some v \<Rightarrow> v | None \<Rightarrow> 0)"

text \<open>\<open>some_includes s ks\<close> is \<^verbatim>\<open>ks.some(k => s.includes(k))\<close>.\<close>

definition some_includes :: "string \<Rightarrow> string list \<Rightarrow> bool" where
  "some_includes s ks = list_ex (\<lambda>k. str_includes s k) ks"

text \<open>\<open>some_includes_lower s ks\<close> is \<^verbatim>\<open>ks.some(k => s.includes(k.toLowerCase()))\<close>.\<close>

definition some_includes_lower :: "string \<Rightarrow> string list \<Rightarrow> bool" where
  "some_includes_lower s ks = list_ex (\<lambda>k. str_includes s (toLowerCase k)) ks"

text \<open>\<open>push_if_enriched\<close> is \<^verbatim>\<open>if (phase === "enriched") reasons.push(r)\<close>.\<close>

definition push_if_enriched :: "phase \<Rightarrow> string list \<Rightarrow> string \<Rightarrow> string list" where
  "push_if_enriched ph rs r = (if ph = Enriched then rs @ [r] else rs)"

text \<open>The arrow of the title reasons, U+2192, in UTF-8.\<close>

definition arrow :: string where
  "arrow = [char_of (226 :: nat), char_of (134 :: nat), char_of (146 :: nat)]"

section \<open>services/scoring.ts: the signal scorers\<close>

text \<open>
  Each scorer takes the record, the reasons collected so far and the phase, and returns
  its points with the reasons after its own pushes.
\<close>

definition scoreEmailDomain ::
  "UniversalLeadInput \<Rightarrow> string list \<Rightarrow> phase \<Rightarrow> int \<times> string list" where
  "scoreEmailDomain input rs ph =
     (if \<not> truthy (contact_email input) then (0, rs)
      else (case contact_email input of
        Defined email \<Rightarrow>
          (let domain = (case nth_opt (str_split (CHR ''@'') email) 1 of
                           Some d \<Rightarrow> toLowerCase d
                         | None \<Rightarrow> [])
           in if domain = [] then (0, rs)
              else if domain \<in> set FREE_EMAIL_DOMAINS
              then (0, push_if_enriched ph rs (''Free email: '' @ domain @ '' (+0)''))
              else (15, push_if_enriched ph rs (''Corporate email: '' @ domain @ '' (+15)'')))
      | _ \<Rightarrow> (0, rs)))"

definition scoreCompanySize ::
  "UniversalLeadInput \<Rightarrow> string list \<Rightarrow> phase \<Rightarrow> int \<times> string list" where
  "scoreCompanySize input rs ph =
     (if \<not> truthy (company_employee_band input) then (0, rs)
      else (case company_employee_band input of
        Defined band \<Rightarrow>
          (let bandScores = [(''1-10'', 5), (''11-50'', 10), (''51-200'', 15),
                             (''201-1000'', 20), (''1000+'', 25)];
               score = table_points bandScores band
           in (score,
               if score > 0
               then push_if_enriched ph rs
                      (''Company size: '' @ band @ '' employees (+'' @ show_int score @ '')'')
               else rs))
      | _ \<Rightarrow> (0, rs)))"

definition scoreRevenue ::
  "UniversalLeadInput \<Rightarrow> string list \<Rightarrow> phase \<Rightarrow> int \<times> string list" where
  "scoreRevenue input rs ph =
     (if \<not> truthy (company_revenue_band input) then (0, rs)
      else (case company_revenue_band input of
        Defined band \<Rightarrow>
          (let bandScores = [(''<1M'', 5), (''1-10M'', 10), (''10-50M'', 15),
                             (''50-250M'', 20), (''250M+'', 25)];
               score = table_points bandScores band
           in (score,
               if score > 0
               then push_if_enriched ph rs
                      (''Revenue: '' @ band @ '' (+'' @ show_int score @ '')'')
               else rs))
      | _ \<Rightarrow> (0, rs)))"

definition scoreSeniority ::
  "UniversalLeadInput \<Rightarrow> string list \<Rightarrow> phase \<Rightarrow> int \<times> string list" where
  "scoreSeniority input rs ph =
     (if truthy (contact_role_seniority input)
      then (case contact_role_seniority input of
        Defined seniority \<Rightarrow>
          (let seniorityScores = [(''IC'', 5), (''Manager'', 10), (''Director'', 15),
                                  (''VP'', 20), (''C-Level'', 30)];
               score = table_points seniorityScores seniority
           in (score,
               if score > 0
               then push_if_enriched ph rs
                      (''Seniority: '' @ seniority @ '' (+'' @ show_int score @ '')'')
               else rs))
      | _ \<Rightarrow> (0, rs))
      else if \<not> truthy (contact_title_raw input) then (0, rs)
      else (case contact_title_raw input of
        Defined title \<Rightarrow>
          (let titleLower = toLowerCase title;
               cSuiteKeywords = [''ceo'', ''cto'', ''cfo'', ''coo'', ''cmo'', ''chief'',
                                 ''founder'', ''owner'', ''president''];
               vpKeywords = [''vp'', ''vice president'', ''head of''];
               directorKeywords = [''director''];
               managerKeywords = [''manager'', ''lead'', ''senior'']
           in if some_includes titleLower cSuiteKeywords
              then (30, push_if_enriched ph rs
                          (''Title: '' @ title @ '' '' @ arrow @ '' C-Level (+30)''))
              else if some_includes titleLower vpKeywords
              then (20, push_if_enriched ph rs
                          (''Title: '' @ title @ '' '' @ arrow @ '' VP (+20)''))
              else if some_includes titleLower directorKeywords
              then (15, push_if_enriched ph rs
                          (''Title: '' @ title @ '' '' @ arrow @ '' Director (+15)''))
              else if some_includes titleLower managerKeywords
              then (10, push_if_enriched ph rs
                          (''Title: '' @ title @ '' '' @ arrow @ '' Manager (+10)''))
              else (0, rs))
      | _ \<Rightarrow> (0, rs)))"

definition scoreIndustry ::
  "UniversalLeadInput \<Rightarrow> string list \<Rightarrow> string list \<Rightarrow> phase \<Rightarrow> int \<times> string list" where
  "scoreIndustry input priorityIndustries rs ph =
     (if \<not> truthy (company_industry input) then (0, rs)
      else (case company_industry input of
        Defined industry \<Rightarrow>
          (let industryLower = toLowerCase industry
           in if length priorityIndustries > 0
                 \<and> some_includes_lower industryLower priorityIndustries
              then (20, push_if_enriched ph rs (''Priority industry: '' @ industry @ '' (+20)''))
              else if some_includes industryLower HIGH_VALUE_INDUSTRIES
              then (15, push_if_enriched ph rs (''High-value industry: '' @ industry @ '' (+15)''))
              else if some_includes industryLower MEDIUM_VALUE_INDUSTRIES
              then (8, push_if_enriched ph rs (''Industry: '' @ industry @ '' (+8)''))
              else (0, rs))
      | _ \<Rightarrow> (0, rs)))"

definition scoreLeadSource ::
  "UniversalLeadInput \<Rightarrow> string list \<Rightarrow> phase \<Rightarrow> int \<times> string list" where
  "scoreLeadSource input rs ph =
     (if \<not> truthy (lead_source input) then (0, rs)
      else (case lead_source input of
        Defined src \<Rightarrow>
          (let sourceLower = toLowerCase src
           in if some_includes sourceLower HIGH_QUALITY_SOURCES
              then (15, push_if_enriched ph rs (''Lead source: '' @ src @ '' (+15)''))
              else if some_includes sourceLower MEDIUM_QUALITY_SOURCES
              then (8, push_if_enriched ph rs (''Lead source: '' @ src @ '' (+8)''))
              else (0, rs))
      | _ \<Rightarrow> (0, rs)))"

definition scoreUseCase ::
  "UniversalLeadInput \<Rightarrow> string list \<Rightarrow> string list \<Rightarrow> phase \<Rightarrow> int \<times> string list" where
  "scoreUseCase input priorityUseCases rs ph =
     (if \<not> truthy (primary_use_case input) then (0, rs)
      else (case primary_use_case input of
        Defined useCase \<Rightarrow>
          (let useCaseLower = toLowerCase useCase
           in if length priorityUseCases > 0
                 \<and> some_includes_lower useCaseLower priorityUseCases
              then (15, push_if_enriched ph rs (''Priority use case: '' @ useCase @ '' (+15)''))
              else (5, push_if_enriched ph rs (''Use case provided: '' @ useCase @ '' (+5)'')))
      | _ \<Rightarrow> (0, rs)))"

definition scoreUrgency ::
  "UniversalLeadInput \<Rightarrow> string list \<Rightarrow> phase \<Rightarrow> int \<times> string list" where
  "scoreUrgency input rs ph =
     (if \<not> truthy (urgency_band input) then (0, rs)
      else (case urgency_band input of
        Defined band \<Rightarrow>
          (let urgencyScores = [(''Exploring'', 5), (''ThisQuarter'', 10), (''ThisMonth'', 20)];
               score = table_points urgencyScores band
           in (score,
               if score > 0
               then push_if_enriched ph rs
                      (''Urgency: '' @ band @ '' (+'' @ show_int score @ '')'')
               else rs))
      | _ \<Rightarrow> (0, rs)))"

definition scoreDealBand ::
  "UniversalLeadInput \<Rightarrow> string list \<Rightarrow> phase \<Rightarrow> int \<times> string list" where
  "scoreDealBand input rs ph =
     (if \<not> truthy (estimated_deal_band input) then (0, rs)
      else (case estimated_deal_band input of
        Defined band \<Rightarrow>
          (let dealScores = [(''Small'', 5), (''Mid'', 10), (''Enterprise'', 15)];
               score = table_points dealScores band
           in (score,
               if score > 0
               then push_if_enriched ph rs
                      (''Deal size: '' @ band @ '' (+'' @ show_int score @ '')'')
               else rs))
      | _ \<Rightarrow> (0, rs)))"

definition scoreRegion ::
  "UniversalLeadInput \<Rightarrow> string list \<Rightarrow> string list \<Rightarrow> phase \<Rightarrow> int \<times> string list" where
  "scoreRegion input excludedRegions rs ph =
     (if length excludedRegions = 0 then (0, rs)
      else (let region = logical_or (company_region input) (contact_geo input)
            in if \<not> truthy region then (0, rs)
               else (case region of
                 Defined r \<Rightarrow>
                   (let regionLower = toLowerCase r;
                        isExcluded = some_includes_lower regionLower excludedRegions
                    in if isExcluded
                       then (- 20, push_if_enriched ph rs (''Excluded region: '' @ r @ '' (-20)''))
                       else (0, rs))
               | _ \<Rightarrow> (0, rs))))"

definition determineTier :: "int \<Rightarrow> rat \<Rightarrow> rat \<Rightarrow> string" where
  "determineTier s hotThreshold warmThreshold =
     (if of_int s \<ge> hotThreshold then ''Hot''
      else if of_int s \<ge> warmThreshold then ''Warm''
      else ''Cold'')"

section \<open>services/scoring.ts: the scoring engine\<close>

text \<open>
  The breakdown is an object filled by assignments: an association list in insertion
  order, where \<open>AList.update\<close> overwrites a key that is there and appends a new one.
  \<open>computeScore\<close> reads its weights as properties of a \<open>Record<string, number>\<close>.
\<close>

definition computeScore ::
  "UniversalLeadInput \<Rightarrow> TenantScoringConfig \<Rightarrow> (string \<Rightarrow> rat) \<Rightarrow> phase
     \<Rightarrow> ScoreComputeResult" where
  "computeScore input config weights ph =
     (let breakdown = [];
          rs = [];
          totalScore = 0;

          (emailScore, rs) = scoreEmailDomain input rs ph;
          weightedEmailScore = Math_round (of_int emailScore * weights ''email_domain'');
          (breakdown, totalScore) =
            (if emailScore > 0
             then (AList.update ''email_domain'' weightedEmailScore breakdown,
                   totalScore + weightedEmailScore)
             else (breakdown, totalScore));

          (sizeScore, rs) = scoreCompanySize input rs ph;
          weightedSizeScore = Math_round (of_int sizeScore * weights ''company_size'');
          (breakdown, totalScore) =
            (if sizeScore > 0
             then (AList.update ''company_size'' weightedSizeScore breakdown,
                   totalScore + weightedSizeScore)
             else (breakdown, totalScore));

          (revenueScore, rs) = scoreRevenue input rs ph;
          weightedRevenueScore = Math_round (of_int revenueScore * weights ''revenue'');
          (breakdown, totalScore) =
            (if revenueScore > 0
             then (AList.update ''revenue'' weightedRevenueScore breakdown,
                   totalScore + weightedRevenueScore)
             else (breakdown, totalScore));

          (seniorityScore, rs) = scoreSeniority input rs ph;
          weightedSeniorityScore = Math_round (of_int seniorityScore * weights ''seniority'');
          (breakdown, totalScore) =
            (if seniorityScore > 0
             then (AList.update ''seniority'' weightedSeniorityScore breakdown,
                   totalScore + weightedSeniorityScore)
             else (breakdown, totalScore));

          (industryScore, rs) = scoreIndustry input (priority_industries config) rs ph;
          weightedIndustryScore = Math_round (of_int industryScore * weights ''industry'');
          (breakdown, totalScore) =
            (if industryScore \<noteq> 0
             then (AList.update ''industry'' weightedIndustryScore breakdown,
                   totalScore + weightedIndustryScore)
             else (breakdown, totalScore));

          (sourceScore, rs) = scoreLeadSource input rs ph;
          weightedSourceScore = Math_round (of_int sourceScore * weights ''lead_source'');
          (breakdown, totalScore) =
            (if sourceScore > 0
             then (AList.update ''lead_source'' weightedSourceScore breakdown,
                   totalScore + weightedSourceScore)
             else (breakdown, totalScore));

          (useCaseScore, rs) = scoreUseCase input (priority_use_cases config) rs ph;
          weightedUseCaseScore = Math_round (of_int useCaseScore * weights ''use_case'');
          (breakdown, totalScore) =
            (if useCaseScore > 0
             then (AList.update ''use_case'' weightedUseCaseScore breakdown,
                   totalScore + weightedUseCaseScore)
             else (breakdown, totalScore));

          (urgencyScore, rs) = scoreUrgency input rs ph;
          weightedUrgencyScore = Math_round (of_int urgencyScore * weights ''urgency'');
          (breakdown, totalScore) =
            (if urgencyScore > 0
             then (AList.update ''urgency'' weightedUrgencyScore breakdown,
                   totalScore + weightedUrgencyScore)
             else (breakdown, totalScore));

          (dealScore, rs) = scoreDealBand input rs ph;
          weightedDealScore = Math_round (of_int dealScore * weights ''deal_band'');
          (breakdown, totalScore) =
            (if dealScore > 0
             then (AList.update ''deal_band'' weightedDealScore breakdown,
                   totalScore + weightedDealScore)
             else (breakdown, totalScore));

          (regionPenalty, rs) = scoreRegion input (excluded_regions config) rs ph;
          (breakdown, totalScore) =
            (if regionPenalty < 0
             then (AList.update ''region_penalty'' regionPenalty breakdown,
                   totalScore + regionPenalty)
             else (breakdown, totalScore));

          finalScore = max 0 (min 100 totalScore);
          tier = determineTier finalScore (hot_threshold config) (warm_threshold config)
      in \<lparr>ScoreComputeResult.score = finalScore,
          tier = tier,
          breakdown = breakdown,
          reasons = rs\<rparr>)"

text \<open>
  \<open>computeDimensions\<close>: the loop over the entries of the breakdown adds a value to the sum of
  its dimension when the key has a dimension and the value is positive.
\<close>

fun add_to_dimension :: "dimension \<Rightarrow> int \<Rightarrow> DimensionBreakdown \<Rightarrow> DimensionBreakdown" where
  "add_to_dimension Fit v dimensionSums =
     dimensionSums\<lparr>fit := fit dimensionSums + v\<rparr>"
| "add_to_dimension Intent v dimensionSums =
     dimensionSums\<lparr>intent := intent dimensionSums + v\<rparr>"
| "add_to_dimension Timing v dimensionSums =
     dimensionSums\<lparr>timing := timing dimensionSums + v\<rparr>"

fun dimension_loop :: "breakdown_map \<Rightarrow> DimensionBreakdown \<Rightarrow> DimensionBreakdown" where
  "dimension_loop [] dimensionSums = dimensionSums"
| "dimension_loop ((key, v) # entries) dimensionSums =
     dimension_loop entries
       (case map_of DIMENSION_MAPPING key of
          Some d \<Rightarrow> if v > 0 then add_to_dimension d v dimensionSums else dimensionSums
        | None \<Rightarrow> dimensionSums)"

definition computeDimensions :: "breakdown_map \<Rightarrow> DimensionBreakdown" where
  "computeDimensions bd =
     (let dimensionSums = dimension_loop bd \<lparr>fit = 0, intent = 0, timing = 0\<rparr>;
          dimensionMaxes = \<lparr>fit = 95, intent = 35, timing = 20\<rparr>
      in \<lparr>fit = min 100 (Math_round
                  (of_int (fit dimensionSums) / of_int (fit dimensionMaxes) * 100)),
          intent = min 100 (Math_round
                  (of_int (intent dimensionSums) / of_int (intent dimensionMaxes) * 100)),
          timing = min 100 (Math_round
                  (of_int (timing dimensionSums) / of_int (timing dimensionMaxes) * 100))\<rparr>)"

text \<open>
  \<open>spread_weights base overrides\<close> is the object \<^verbatim>\<open>{ ...base, ...overrides }\<close> read at a
  key. \<open>computeScore\<close> reads the nine keys of \<open>BASE_WEIGHTS\<close> only, which the object always
  has; at any other key the model gives 1.
\<close>

definition spread_weights :: "(string \<times> rat) list \<Rightarrow> (string \<rightharpoonup> rat) \<Rightarrow> string \<Rightarrow> rat" where
  "spread_weights base overrides k =
     (case (map_of base ++ overrides) k of Some w \<Rightarrow> w | None \<Rightarrow> 1)"

definition scoreLeadDual :: "DualScoringInput \<Rightarrow> ScoringResult" where
  "scoreLeadDual inp =
     (let config = (case tenantConfig inp of Some c \<Rightarrow> c | None \<Rightarrow> getDefaultScoringConfig);
          weights = spread_weights BASE_WEIGHTS (weight_overrides config);
          rawResult = computeScore (rawLead inp) config weights Raw;
          enrichedResult = computeScore (enrichedLead inp) config weights Enriched;
          lift = ScoreComputeResult.score enrichedResult - ScoreComputeResult.score rawResult;
          dimensions = computeDimensions (breakdown enrichedResult)
      in \<lparr>score = ScoreComputeResult.score enrichedResult,
          tier = ScoreComputeResult.tier enrichedResult,
          raw_score = ScoreComputeResult.score rawResult,
          raw_tier = ScoreComputeResult.tier rawResult,
          enriched_score = ScoreComputeResult.score enrichedResult,
          enriched_tier = ScoreComputeResult.tier enrichedResult,
          lift = lift,
          scoring_version = SCORING_VERSION,
          score_breakdown = breakdown enrichedResult,
          raw_breakdown = breakdown rawResult,
          dimensions = dimensions,
          reasons = ScoreComputeResult.reasons enrichedResult\<rparr>)"


section \<open>services/enrichment.ts: the merge\<close>

definition mergeEnrichment ::
  "UniversalLeadInput \<Rightarrow> PartialUniversalLeadInput \<Rightarrow> UniversalLeadInput" where
  "mergeEnrichment original enriched =
     \<lparr>company_name = nullish_or (company_name original) (company_name enriched),
      company_industry = nullish_or (company_industry original) (company_industry enriched),
      company_employee_band =
        nullish_or (company_employee_band original) (company_employee_band enriched),
      company_revenue_band =
        nullish_or (company_revenue_band original) (company_revenue_band enriched),
      company_region = nullish_or (company_region original) (company_region enriched),
      company_tech_stack_summary =
        nullish_or (company_tech_stack_summary original) (company_tech_stack_summary enriched),
      contact_email = nullish_or (contact_email original) (contact_email enriched),
      contact_first_name = nullish_or (contact_first_name original) (contact_first_name enriched),
      contact_last_name = nullish_or (contact_last_name original) (contact_last_name enriched),
      contact_role_function =
        nullish_or (contact_role_function original) (contact_role_function enriched),
      contact_role_seniority =
        nullish_or (contact_role_seniority original) (contact_role_seniority enriched),
      contact_title_raw = nullish_or (contact_title_raw original) (contact_title_raw enriched),
      contact_geo = nullish_or (contact_geo original) (contact_geo enriched),
      contact_phone = nullish_or (contact_phone original) (contact_phone enriched),
      primary_use_case = nullish_or (primary_use_case original) (primary_use_case enriched),
      estimated_deal_band =
        nullish_or (estimated_deal_band original) (estimated_deal_band enriched),
      urgency_band = nullish_or (urgency_band original) (urgency_band enriched),
      lead_source = nullish_or (lead_source original) (lead_source enriched),
      company_domain = company_domain original\<rparr>"

section \<open>mappers: count and revenue to band\<close>

text \<open>
  The argument of a band conversion is \<^verbatim>\<open>undefined\<close>, \<^verbatim>\<open>null\<close> or a number. The
  Salesforce mapper and the HubSpot mapper each have their own copy of the two functions.
\<close>

definition salesforce_mapEmployeeCountToBand :: "number nullable \<Rightarrow> string nullable" where
  "salesforce_mapEmployeeCountToBand count =
     (case count of
        Undefined \<Rightarrow> Undefined
      | Null \<Rightarrow> Undefined
      | Defined n \<Rightarrow>
          if num_le n 10 then Defined ''1-10''
          else if num_le n 50 then Defined ''11-50''
          else if num_le n 200 then Defined ''51-200''
          else if num_le n 1000 then Defined ''201-1000''
          else Defined ''1000+'')"

definition salesforce_mapRevenueToBand :: "number nullable \<Rightarrow> string nullable" where
  "salesforce_mapRevenueToBand revenue =
     (case revenue of
        Undefined \<Rightarrow> Undefined
      | Null \<Rightarrow> Undefined
      | Defined n \<Rightarrow>
          if num_lt n 1000000 then Defined ''<1M''
          else if num_lt n 10000000 then Defined ''1-10M''
          else if num_lt n 50000000 then Defined ''10-50M''
          else if num_lt n 250000000 then Defined ''50-250M''
          else Defined ''250M+'')"

definition hubspot_mapEmployeeCountToBand :: "number nullable \<Rightarrow> string nullable" where
  "hubspot_mapEmployeeCountToBand count =
     (case count of
        Undefined \<Rightarrow> Undefined
      | Null \<Rightarrow> Undefined
      | Defined n \<Rightarrow>
          if isNaN n then Undefined
          else if num_le n 10 then Defined ''1-10''
          else if num_le n 50 then Defined ''11-50''
          else if num_le n 200 then Defined ''51-200''
          else if num_le n 1000 then Defined ''201-1000''
          else Defined ''1000+'')"

definition hubspot_mapRevenueToBand :: "number nullable \<Rightarrow> string nullable" where
  "hubspot_mapRevenueToBand revenue =
     (case revenue of
        Undefined \<Rightarrow> Undefined
      | Null \<Rightarrow> Undefined
      | Defined n \<Rightarrow>
          if isNaN n then Undefined
          else if num_lt n 1000000 then Defined ''<1M''
          else if num_lt n 10000000 then Defined ''1-10M''
          else if num_lt n 50000000 then Defined ''10-50M''
          else if num_lt n 250000000 then Defined ''50-250M''
          else Defined ''250M+'')"

section \<open>mappers and routes/enrichLead.ts: detecting the source of a payload\<close>

text \<open>
  A payload is a parsed JSON object: a map from property names to values. \<open>typeof\<close> is the
  operator of that name on a property; a property the object lacks is \<^verbatim>\<open>undefined\<close>.
\<close>

type_synonym payload = "string \<rightharpoonup> json"

fun typeof :: "json option \<Rightarrow> string" where
  "typeof None = ''undefined''"
| "typeof (Some JNull) = ''object''"
| "typeof (Some (JBool b)) = ''boolean''"
| "typeof (Some (JNum n)) = ''number''"
| "typeof (Some (JStr s)) = ''string''"
| "typeof (Some (JArr xs)) = ''object''"
| "typeof (Some (JObj kvs)) = ''object''"

definition isSalesforcePayload :: "payload \<Rightarrow> bool" where
  "isSalesforcePayload p =
     (typeof (p ''LastName'') = ''string'' \<or>
      typeof (p ''Company'') = ''string'' \<or>
      typeof (p ''NumberOfEmployees'') = ''number'' \<or>
      typeof (p ''AnnualRevenue'') = ''number'' \<or>
      (case p ''Id'' of Some (JStr s) \<Rightarrow> length s = 18 | _ \<Rightarrow> False))"

definition isHubSpotPayload :: "payload \<Rightarrow> bool" where
  "isHubSpotPayload p =
     (typeof (p ''vid'') = ''number'' \<or>
      typeof (p ''properties'') = ''object'' \<or>
      typeof (p ''firstname'') = ''string'' \<or>
      typeof (p ''lastname'') = ''string'' \<or>
      typeof (p ''jobtitle'') = ''string'' \<or>
      typeof (p ''lifecyclestage'') = ''string'' \<or>
      typeof (p ''hs_lead_status'') = ''string'')"

text \<open>
  \<open>first_has_value v\<close> is \<^verbatim>\<open>Array.isArray(v) && v[0]?.value !== undefined\<close>: only an
  object has a property \<open>value\<close> of its own.
\<close>

fun first_has_value :: "json option \<Rightarrow> bool" where
  "first_has_value (Some (JArr (JObj kvs # rest))) = (map_of kvs ''value'' \<noteq> None)"
| "first_has_value v = False"

definition isPipedrivePayload :: "payload \<Rightarrow> bool" where
  "isPipedrivePayload p =
     (typeof (p ''person_id'') = ''number'' \<or>
      typeof (p ''org_id'') = ''number'' \<or>
      (typeof (p ''org_id'') = ''object'' \<and> p ''org_id'' \<noteq> Some JNull) \<or>
      typeof (p ''org_name'') = ''string'' \<or>
      typeof (p ''owner_id'') = ''number'' \<or>
      first_has_value (p ''email'') \<or>
      first_has_value (p ''phone''))"

text \<open>
  The three CRM mappers and the pass-through mapper are parameters of \<open>detectAndMap\<close>: the
  classifier only calls the one it selected and copies its result.
  \<open>json_truthy\<close> is the truth value of a JSON value.
\<close>

record mapper_result =
  universal :: UniversalLeadInput
  externalId :: "string option"

record mappers =
  mapSalesforceToUniversal :: "payload \<Rightarrow> mapper_result"
  mapHubSpotToUniversal :: "payload \<Rightarrow> mapper_result"
  mapPipedriveToUniversal :: "payload \<Rightarrow> mapper_result"
  mapRawToUniversal :: "payload \<Rightarrow> UniversalLeadInput"

record detect_result =
  source :: string
  universalInput :: UniversalLeadInput
  externalId :: "json option"

fun json_truthy :: "json \<Rightarrow> bool" where
  "json_truthy JNull = False"
| "json_truthy (JBool b) = b"
| "json_truthy (JNum NaN) = False"
| "json_truthy (JNum (Finite x)) = (x \<noteq> 0)"
| "json_truthy (JNum n) = True"
| "json_truthy (JStr s) = (s \<noteq> [])"
| "json_truthy (JArr xs) = True"
| "json_truthy (JObj kvs) = True"

definition detectAndMap :: "mappers \<Rightarrow> payload \<Rightarrow> detect_result" where
  "detectAndMap ms p =
     (let hintedSource = p ''_source''
      in if hintedSource = Some (JStr ''salesforce'') \<or> isSalesforcePayload p
         then (let result = mapSalesforceToUniversal ms p
               in \<lparr>source = ''salesforce'',
                   universalInput = universal result,
                   externalId = map_option JStr (mapper_result.externalId result)\<rparr>)
         else if hintedSource = Some (JStr ''hubspot'') \<or> isHubSpotPayload p
         then (let result = mapHubSpotToUniversal ms p
               in \<lparr>source = ''hubspot'',
                   universalInput = universal result,
                   externalId = map_option JStr (mapper_result.externalId result)\<rparr>)
         else if hintedSource = Some (JStr ''pipedrive'') \<or> isPipedrivePayload p
         then (let result = mapPipedriveToUniversal ms p
               in \<lparr>source = ''pipedrive'',
                   universalInput = universal result,
                   externalId = map_option JStr (mapper_result.externalId result)\<rparr>)
         else \<lparr>source = ''api'',
               universalInput = mapRawToUniversal ms p,
               externalId = (case p ''external_id'' of
                               Some v \<Rightarrow> if json_truthy v then Some v else None
                             | None \<Rightarrow> None)\<rparr>)"

section \<open>Reading the engine: points, contributions and the entries a record fires\<close>

text \<open>
  \<open>signal_points\<close> gives the unweighted points of a signal by its breakdown key: what its
  scorer returns for the record (the points of a scorer depend neither on the reasons it
  is handed nor on the phase). \<open>contribution\<close> is what \<open>computeScore\<close> adds for a signal
  that fired: the rounded product with the weight, and the penalty itself for the region.
  \<open>fired_entries\<close> lists, in the order of \<open>computeScore\<close>, the keys whose points are not 0
  with their contributions.
\<close>

definition SIGNAL_KEYS :: "string list" where
  "SIGNAL_KEYS = [''email_domain'', ''company_size'', ''revenue'', ''seniority'', ''industry'',
                  ''lead_source'', ''use_case'', ''urgency'', ''deal_band'', ''region_penalty'']"

definition signal_points :: "UniversalLeadInput \<Rightarrow> TenantScoringConfig \<Rightarrow> string \<Rightarrow> int" where
  "signal_points input config k =
     (if k = ''email_domain'' then fst (scoreEmailDomain input [] Raw)
      else if k = ''company_size'' then fst (scoreCompanySize input [] Raw)
      else if k = ''revenue'' then fst (scoreRevenue input [] Raw)
      else if k = ''seniority'' then fst (scoreSeniority input [] Raw)
      else if k = ''industry'' then fst (scoreIndustry input (priority_industries config) [] Raw)
      else if k = ''lead_source'' then fst (scoreLeadSource input [] Raw)
      else if k = ''use_case'' then fst (scoreUseCase input (priority_use_cases config) [] Raw)
      else if k = ''urgency'' then fst (scoreUrgency input [] Raw)
      else if k = ''deal_band'' then fst (scoreDealBand input [] Raw)
      else if k = ''region_penalty'' then fst (scoreRegion input (excluded_regions config) [] Raw)
      else 0)"

definition contribution ::
  "UniversalLeadInput \<Rightarrow> TenantScoringConfig \<Rightarrow> (string \<Rightarrow> rat) \<Rightarrow> string \<Rightarrow> int" where
  "contribution input config weights k =
     (if k = ''region_penalty'' then signal_points input config k
      else Math_round (of_int (signal_points input config k) * weights k))"

definition fired_entries ::
  "UniversalLeadInput \<Rightarrow> TenantScoringConfig \<Rightarrow> (string \<Rightarrow> rat) \<Rightarrow> string list \<Rightarrow> breakdown_map" where
  "fired_entries input config weights ks =
     map (\<lambda>k. (k, contribution input config weights k))
       (filter (\<lambda>k. signal_points input config k \<noteq> 0) ks)"

definition record_entry :: "bool \<Rightarrow> string \<Rightarrow> int \<Rightarrow> breakdown_map \<times> int \<Rightarrow> breakdown_map \<times> int" where
  "record_entry c k v bt = (if c then (AList.update k v (fst bt), snd bt + v) else bt)"

definition score_chain ::
  "UniversalLeadInput \<Rightarrow> TenantScoringConfig \<Rightarrow> (string \<Rightarrow> rat) \<Rightarrow> string list
     \<Rightarrow> breakdown_map \<times> int \<Rightarrow> breakdown_map \<times> int" where
  "score_chain i c w ks bt =
     foldl (\<lambda>bt k. record_entry (signal_points i c k \<noteq> 0) k (contribution i c w k) bt) bt ks"

definition reasons_before_region ::
  "UniversalLeadInput \<Rightarrow> TenantScoringConfig \<Rightarrow> phase \<Rightarrow> string list" where
  "reasons_before_region i c ph =
     snd (scoreDealBand i
      (snd (scoreUrgency i
       (snd (scoreUseCase i (priority_use_cases c)
        (snd (scoreLeadSource i
         (snd (scoreIndustry i (priority_industries c)
          (snd (scoreSeniority i
           (snd (scoreRevenue i
            (snd (scoreCompanySize i
             (snd (scoreEmailDomain i [] ph)) ph)) ph)) ph)) ph)) ph)) ph)) ph)) ph)"


text \<open>A property is present when it is neither \<^verbatim>\<open>undefined\<close> nor \<^verbatim>\<open>null\<close>.\<close>

definition present :: "'a nullable \<Rightarrow> bool" where
  "present x = (case x of Defined v \<Rightarrow> True | Undefined \<Rightarrow> False | Null \<Rightarrow> False)"

section \<open>Example records\<close>

text \<open>
  The minimal lead of the test suite, which has its domain only, and an enrichment that
  found nothing. The examples below update single fields of them.
\<close>

definition minimalLead :: UniversalLeadInput where
  "minimalLead =
     \<lparr>company_name = Undefined, company_industry = Undefined,
      company_employee_band = Undefined, company_revenue_band = Undefined,
      company_region = Undefined, company_tech_stack_summary = Undefined,
      contact_email = Undefined, contact_first_name = Undefined,
      contact_last_name = Undefined, contact_role_function = Undefined,
      contact_role_seniority = Undefined, contact_title_raw = Undefined,
      contact_geo = Undefined, contact_phone = Undefined, primary_use_case = Undefined,
      estimated_deal_band = Undefined, urgency_band = Undefined, lead_source = Undefined,
      company_domain = ''example.com''\<rparr>"

definition emptyEnrichment :: PartialUniversalLeadInput where
  "emptyEnrichment =
     \<lparr>company_name = Undefined, company_industry = Undefined,
      company_employee_band = Undefined, company_revenue_band = Undefined,
      company_region = Undefined, company_tech_stack_summary = Undefined,
      contact_email = Undefined, contact_first_name = Undefined,
      contact_last_name = Undefined, contact_role_function = Undefined,
      contact_role_seniority = Undefined, contact_title_raw = Undefined,
      contact_geo = Undefined, contact_phone = Undefined, primary_use_case = Undefined,
      estimated_deal_band = Undefined, urgency_band = Undefined, lead_source = Undefined,
      partial_company_domain = Undefined\<rparr>"

section \<open>The scoring engine in normal form\<close>

lemma table_points_cases:
  "table_points [] k = 0"
  "table_points ((a, v) # t) k = (if k = a then v else table_points t k)"
  by (simp_all add: table_points_def)

lemma email_points: "fst (scoreEmailDomain input rs ph) = signal_points input config ''email_domain''"
  by (simp add: signal_points_def scoreEmailDomain_def Let_def split: nullable.splits option.splits)
lemma email_nonneg: "0 \<le> fst (scoreEmailDomain input rs ph)"
  by (simp add: scoreEmailDomain_def Let_def split: nullable.splits option.splits)

lemma size_points: "fst (scoreCompanySize input rs ph) = signal_points input config ''company_size''"
  by (simp add: signal_points_def scoreCompanySize_def Let_def split: nullable.splits)
lemma size_nonneg: "0 \<le> fst (scoreCompanySize input rs ph)"
  by (simp add: scoreCompanySize_def Let_def table_points_cases split: nullable.splits)

lemma revenue_points: "fst (scoreRevenue input rs ph) = signal_points input config ''revenue''"
  by (simp add: signal_points_def scoreRevenue_def Let_def split: nullable.splits)
lemma revenue_nonneg: "0 \<le> fst (scoreRevenue input rs ph)"
  by (simp add: scoreRevenue_def Let_def table_points_cases split: nullable.splits)

lemma seniority_points: "fst (scoreSeniority input rs ph) = signal_points input config ''seniority''"
  by (simp add: signal_points_def scoreSeniority_def Let_def split: nullable.splits)
lemma seniority_nonneg: "0 \<le> fst (scoreSeniority input rs ph)"
  by (simp add: scoreSeniority_def Let_def table_points_cases split: nullable.splits)

lemma industry_points: "fst (scoreIndustry input (priority_industries config) rs ph) = signal_points input config ''industry''"
  by (simp add: signal_points_def scoreIndustry_def Let_def split: nullable.splits)
lemma industry_nonneg: "0 \<le> fst (scoreIndustry input pis rs ph)"
  by (simp add: scoreIndustry_def Let_def split: nullable.splits)

lemma source_points: "fst (scoreLeadSource input rs ph) = signal_points input config ''lead_source''"
  by (simp add: signal_points_def scoreLeadSource_def Let_def split: nullable.splits)
lemma source_nonneg: "0 \<le> fst (scoreLeadSource input rs ph)"
  by (simp add: scoreLeadSource_def Let_def split: nullable.splits)

lemma usecase_points: "fst (scoreUseCase input (priority_use_cases config) rs ph) = signal_points input config ''use_case''"
  by (simp add: signal_points_def scoreUseCase_def Let_def split: nullable.splits)
lemma usecase_nonneg: "0 \<le> fst (scoreUseCase input pus rs ph)"
  by (simp add: scoreUseCase_def Let_def split: nullable.splits)

lemma urgency_points: "fst (scoreUrgency input rs ph) = signal_points input config ''urgency''"
  by (simp add: signal_points_def scoreUrgency_def Let_def split: nullable.splits)
lemma urgency_nonneg: "0 \<le> fst (scoreUrgency input rs ph)"
  by (simp add: scoreUrgency_def Let_def table_points_cases split: nullable.splits)

lemma deal_points: "fst (scoreDealBand input rs ph) = signal_points input config ''deal_band''"
  by (simp add: signal_points_def scoreDealBand_def Let_def split: nullable.splits)
lemma deal_nonneg: "0 \<le> fst (scoreDealBand input rs ph)"
  by (simp add: scoreDealBand_def Let_def table_points_cases split: nullable.splits)

lemma region_points: "fst (scoreRegion input (excluded_regions config) rs ph) = signal_points input config ''region_penalty''"
  by (simp add: signal_points_def scoreRegion_def Let_def split: nullable.splits)
lemma region_nonpos: "fst (scoreRegion input ers rs ph) \<le> 0"
  by (simp add: scoreRegion_def Let_def split: nullable.splits)

lemma update_fresh: "k \<notin> fst ` set b \<Longrightarrow> AList.update k v b = b @ [(k, v)]"
  by (induction b) auto

lemma record_entry_step:
  assumes "k \<notin> set ks"
  shows "record_entry (signal_points i c k \<noteq> 0) k (contribution i c w k)
           (fired_entries i c w ks, sum_list (map snd (fired_entries i c w ks)))
         = (fired_entries i c w (ks @ [k]), sum_list (map snd (fired_entries i c w (ks @ [k]))))"
proof -
  have "k \<notin> fst ` set (fired_entries i c w ks)"
    using assms by (auto simp: fired_entries_def)
  then show ?thesis
    by (simp add: record_entry_def update_fresh) (simp add: fired_entries_def)
qed

lemma if_record_entry:
  "(if c then (AList.update k v b, t + v) else (b, t)) = record_entry c k v (b, t)"
  by (simp add: record_entry_def)

lemma signal_points_sign:
  "(0 < signal_points i c ''email_domain'') = (signal_points i c ''email_domain'' \<noteq> 0)"
  "(0 < signal_points i c ''company_size'') = (signal_points i c ''company_size'' \<noteq> 0)"
  "(0 < signal_points i c ''revenue'') = (signal_points i c ''revenue'' \<noteq> 0)"
  "(0 < signal_points i c ''seniority'') = (signal_points i c ''seniority'' \<noteq> 0)"
  "(0 < signal_points i c ''lead_source'') = (signal_points i c ''lead_source'' \<noteq> 0)"
  "(0 < signal_points i c ''use_case'') = (signal_points i c ''use_case'' \<noteq> 0)"
  "(0 < signal_points i c ''urgency'') = (signal_points i c ''urgency'' \<noteq> 0)"
  "(0 < signal_points i c ''deal_band'') = (signal_points i c ''deal_band'' \<noteq> 0)"
  "(signal_points i c ''region_penalty'' < 0) = (signal_points i c ''region_penalty'' \<noteq> 0)"
  using email_nonneg[of i "[]" Raw] size_nonneg[of i "[]" Raw] revenue_nonneg[of i "[]" Raw]
    seniority_nonneg[of i "[]" Raw] source_nonneg[of i "[]" Raw]
    usecase_nonneg[of i "priority_use_cases c" "[]" Raw] urgency_nonneg[of i "[]" Raw]
    deal_nonneg[of i "[]" Raw] region_nonpos[of i "excluded_regions c" "[]" Raw]
  by (auto simp: signal_points_def)

lemma score_chain_fired:
  "distinct (ks @ ks') \<Longrightarrow>
   score_chain i c w ks' (fired_entries i c w ks, sum_list (map snd (fired_entries i c w ks)))
     = (fired_entries i c w (ks @ ks'), sum_list (map snd (fired_entries i c w (ks @ ks'))))"
proof (induction ks' arbitrary: ks)
  case Nil
  then show ?case by (simp add: score_chain_def)
next
  case (Cons k ks')
  have fresh: "k \<notin> set ks" using Cons.prems by auto
  have d: "distinct ((ks @ [k]) @ ks')" using Cons.prems by auto
  have "score_chain i c w (k # ks') (fired_entries i c w ks, sum_list (map snd (fired_entries i c w ks)))
      = score_chain i c w ks' (record_entry (signal_points i c k \<noteq> 0) k (contribution i c w k)
          (fired_entries i c w ks, sum_list (map snd (fired_entries i c w ks))))"
    by (simp add: score_chain_def)
  also have "\<dots> = score_chain i c w ks'
        (fired_entries i c w (ks @ [k]), sum_list (map snd (fired_entries i c w (ks @ [k]))))"
    by (simp only: record_entry_step[OF fresh])
  also have "\<dots> = (fired_entries i c w ((ks @ [k]) @ ks'),
        sum_list (map snd (fired_entries i c w ((ks @ [k]) @ ks'))))"
    by (rule Cons.IH[OF d])
  finally show ?case by simp
qed

lemma score_chain_all:
  "score_chain i c w SIGNAL_KEYS ([], 0)
     = (fired_entries i c w SIGNAL_KEYS, sum_list (map snd (fired_entries i c w SIGNAL_KEYS)))"
proof -
  have "distinct ([] @ SIGNAL_KEYS)" by (simp add: SIGNAL_KEYS_def)
  from score_chain_fired[OF this, of i c w] show ?thesis by (simp add: fired_entries_def)
qed

lemma computeScore_chain:
  "computeScore i c w ph =
     \<lparr>ScoreComputeResult.score = max 0 (min 100 (snd (score_chain i c w SIGNAL_KEYS ([], 0)))),
      tier = determineTier (max 0 (min 100 (snd (score_chain i c w SIGNAL_KEYS ([], 0)))))
               (hot_threshold c) (warm_threshold c),
      breakdown = fst (score_chain i c w SIGNAL_KEYS ([], 0)),
      reasons = snd (scoreRegion i (excluded_regions c) (reasons_before_region i c ph) ph)\<rparr>"
  by (simp add: computeScore_def Let_def split_def if_record_entry 
     email_points[where config=c] size_points[where config=c] revenue_points[where config=c]
  seniority_points[where config=c] industry_points[where config=c] source_points[where config=c]
  usecase_points[where config=c] urgency_points[where config=c] deal_points[where config=c]
  region_points[where config=c] signal_points_sign
    score_chain_def SIGNAL_KEYS_def contribution_def reasons_before_region_def
     split del: if_split del: AList.update.simps)

lemma computeScore_fields:
  "breakdown (computeScore i c w ph) = fired_entries i c w SIGNAL_KEYS"
  "ScoreComputeResult.score (computeScore i c w ph) = max 0 (min 100 (sum_list (map snd (fired_entries i c w SIGNAL_KEYS))))"
  "ScoreComputeResult.tier (computeScore i c w ph) = determineTier (max 0 (min 100 (sum_list (map snd (fired_entries i c w SIGNAL_KEYS))))) (hot_threshold c) (warm_threshold c)"
  "ScoreComputeResult.reasons (computeScore i c w ph) = snd (scoreRegion i (excluded_regions c) (reasons_before_region i c ph) ph)"
  by (simp_all only: computeScore_chain score_chain_all ScoreComputeResult.simps fst_conv snd_conv)



lemma set_fired:
  "((k, v) \<in> set (fired_entries i c w ks)) =
     (k \<in> set ks \<and> signal_points i c k \<noteq> 0 \<and> v = contribution i c w k)"
  unfolding fired_entries_def by auto


section \<open>Points of a signal that fired\<close>

lemma points_zero_or_ge5:
  "fst (scoreEmailDomain i rs ph) = 0 \<or> 5 \<le> fst (scoreEmailDomain i rs ph)"
  "fst (scoreCompanySize i rs ph) = 0 \<or> 5 \<le> fst (scoreCompanySize i rs ph)"
  "fst (scoreRevenue i rs ph) = 0 \<or> 5 \<le> fst (scoreRevenue i rs ph)"
  "fst (scoreSeniority i rs ph) = 0 \<or> 5 \<le> fst (scoreSeniority i rs ph)"
  "fst (scoreIndustry i pis rs ph) = 0 \<or> 5 \<le> fst (scoreIndustry i pis rs ph)"
  "fst (scoreLeadSource i rs ph) = 0 \<or> 5 \<le> fst (scoreLeadSource i rs ph)"
  "fst (scoreUseCase i pus rs ph) = 0 \<or> 5 \<le> fst (scoreUseCase i pus rs ph)"
  "fst (scoreUrgency i rs ph) = 0 \<or> 5 \<le> fst (scoreUrgency i rs ph)"
  "fst (scoreDealBand i rs ph) = 0 \<or> 5 \<le> fst (scoreDealBand i rs ph)"
  "fst (scoreRegion i ers rs ph) = 0 \<or> fst (scoreRegion i ers rs ph) = - 20"
  by (simp_all add: scoreEmailDomain_def scoreCompanySize_def scoreRevenue_def scoreSeniority_def
      scoreIndustry_def scoreLeadSource_def scoreUseCase_def scoreUrgency_def scoreDealBand_def
      scoreRegion_def Let_def table_points_cases split: nullable.splits option.splits)

lemma signal_points_ge5:
  "k \<noteq> ''region_penalty'' \<Longrightarrow> signal_points i c k \<noteq> 0 \<Longrightarrow> 5 \<le> signal_points i c k"
  using points_zero_or_ge5(1)[of i "[]" Raw] points_zero_or_ge5(2)[of i "[]" Raw]
    points_zero_or_ge5(3)[of i "[]" Raw] points_zero_or_ge5(4)[of i "[]" Raw]
    points_zero_or_ge5(5)[of i "priority_industries c" "[]" Raw]
    points_zero_or_ge5(6)[of i "[]" Raw]
    points_zero_or_ge5(7)[of i "priority_use_cases c" "[]" Raw]
    points_zero_or_ge5(8)[of i "[]" Raw] points_zero_or_ge5(9)[of i "[]" Raw]
  by (auto simp: signal_points_def split: if_splits)

lemma signal_points_region:
  "signal_points i c ''region_penalty'' \<noteq> 0 \<Longrightarrow> signal_points i c ''region_penalty'' = - 20"
  using points_zero_or_ge5(10)[of i "excluded_regions c" "[]" Raw]
  by (auto simp: signal_points_def)

lemma Math_round_ge1:
  assumes "5 \<le> p" and "1 / 10 \<le> w"
  shows "1 \<le> Math_round (of_int p * w)"
proof -
  have "(5::rat) \<le> of_int p" using assms(1) by (metis of_int_le_iff of_int_numeral)
  then have "5 * (1 / 10) \<le> of_int p * w"
    using assms(2) by (intro mult_mono) auto
  then have "(1::rat) \<le> of_int p * w + 1 / 2" by simp
  then have "\<lfloor>1::rat\<rfloor> \<le> \<lfloor>of_int p * w + 1 / 2\<rfloor>" by (rule floor_mono)
  then show ?thesis by (simp add: Math_round_def)
qed

lemma contribution_nonzero:
  assumes "signal_points i c k \<noteq> 0" and "\<forall>k'. 1 / 10 \<le> w k'"
  shows "contribution i c w k \<noteq> 0"
proof (cases "k = ''region_penalty''")
  case True
  then show ?thesis using assms(1) by (simp add: contribution_def)
next
  case False
  have "5 \<le> signal_points i c k" using False assms(1) by (rule signal_points_ge5)
  moreover have "1 / 10 \<le> w k" using assms(2) by simp
  ultimately have "1 \<le> Math_round (of_int (signal_points i c k) * w k)" by (rule Math_round_ge1)
  then show ?thesis using False by (simp add: contribution_def)
qed

section \<open>Region, merge and dimension lemmas\<close>


lemma nullish_or_present: "nullish_or a b = (if present a then a else b)"
  by (cases a) (simp_all add: present_def)

lemma dimension_loop_skip:
  "v \<le> 0 \<Longrightarrow> dimension_loop (b1 @ (k, v) # b2) acc = dimension_loop (b1 @ b2) acc"
  by (induction b1 arbitrary: acc) (auto split: option.splits)

section \<open>What the classifier and the band conversions do\<close>

lemma detectAndMap_salesforce_hint:
  "p ''_source'' = Some (JStr ''salesforce'') \<Longrightarrow> source (detectAndMap ms p) = ''salesforce''"
  by (simp add: detectAndMap_def Let_def)

lemma detectAndMap_hubspot_hint:
  "p ''_source'' = Some (JStr ''hubspot'') \<Longrightarrow>
   source (detectAndMap ms p) = (if isSalesforcePayload p then ''salesforce'' else ''hubspot'')"
  by (simp add: detectAndMap_def Let_def)

lemma detectAndMap_pipedrive_hint:
  "p ''_source'' = Some (JStr ''pipedrive'') \<Longrightarrow>
   source (detectAndMap ms p) =
     (if isSalesforcePayload p then ''salesforce''
      else if isHubSpotPayload p then ''hubspot'' else ''pipedrive'')"
  by (simp add: detectAndMap_def Let_def)

lemma bands_of_undefined:
  "salesforce_mapEmployeeCountToBand Undefined = Undefined"
  "salesforce_mapRevenueToBand Undefined = Undefined"
  "hubspot_mapEmployeeCountToBand Undefined = Undefined"
  "hubspot_mapRevenueToBand Undefined = Undefined"
  by (simp_all add: salesforce_mapEmployeeCountToBand_def salesforce_mapRevenueToBand_def
      hubspot_mapEmployeeCountToBand_def hubspot_mapRevenueToBand_def)

lemma employee_band_of_finite:
  "salesforce_mapEmployeeCountToBand (Defined (Finite x)) =
     Defined (if x \<le> 10 then ''1-10'' else if x \<le> 50 then ''11-50''
              else if x \<le> 200 then ''51-200'' else if x \<le> 1000 then ''201-1000''
              else ''1000+'')"
  "hubspot_mapEmployeeCountToBand (Defined (Finite x)) =
     salesforce_mapEmployeeCountToBand (Defined (Finite x))"
  by (simp_all add: salesforce_mapEmployeeCountToBand_def hubspot_mapEmployeeCountToBand_def)

lemma revenue_band_of_finite:
  "salesforce_mapRevenueToBand (Defined (Finite x)) =
     Defined (if x < 1000000 then ''<1M'' else if x < 10000000 then ''1-10M''
              else if x < 50000000 then ''10-50M'' else if x < 250000000 then ''50-250M''
              else ''250M+'')"
  "hubspot_mapRevenueToBand (Defined (Finite x)) =
     salesforce_mapRevenueToBand (Defined (Finite x))"
  by (simp_all add: salesforce_mapRevenueToBand_def hubspot_mapRevenueToBand_def)

section \<open>The claims\<close>


text \<open>
  C2. The claim is that a payload whose \<open>_source\<close> names a known source is always given to
  that source's mapper. The classifier tests the Salesforce detector before it looks at a
  HubSpot hint: a payload hinted \<open>hubspot\<close> that has a string \<open>LastName\<close> is mapped by the
  Salesforce mapper and reported as \<open>salesforce\<close>, whatever the mappers do.
\<close>

theorem detectAndMap_hubspot_hint_overridden:
  "source (detectAndMap ms [''_source'' \<mapsto> JStr ''hubspot'', ''LastName'' \<mapsto> JStr ''Doe''])
     = ''salesforce'' \<and>
   universalInput (detectAndMap ms [''_source'' \<mapsto> JStr ''hubspot'', ''LastName'' \<mapsto> JStr ''Doe''])
     = universal (mapSalesforceToUniversal ms
         [''_source'' \<mapsto> JStr ''hubspot'', ''LastName'' \<mapsto> JStr ''Doe''])"
  by (simp add: detectAndMap_def isSalesforcePayload_def Let_def)

text \<open>
  C3. The claim is that no breakdown entry ever has the value 0, also when a weight
  override scales a contribution down to 0. The guard of each signal tests the unweighted
  points and the entry records the weighted ones: with the weight of \<open>email_domain\<close>
  overridden to 0, a corporate email leaves the entry \<open>email_domain = 0\<close> in
  \<open>score_breakdown\<close>.
\<close>

theorem breakdown_zero_entry_counterexample:
  "map_of (score_breakdown (scoreLeadDual
     \<lparr>rawLead = minimalLead\<lparr>contact_email := Defined ''john@acme.com''\<rparr>,
      enrichedLead = minimalLead\<lparr>contact_email := Defined ''john@acme.com''\<rparr>,
      tenantConfig =
        Some (getDefaultScoringConfig\<lparr>weight_overrides := [''email_domain'' \<mapsto> 0]\<rparr>)\<rparr>))
     ''email_domain'' = Some 0"
  by code_simp

text \<open>
  C3, as amended. The breakdown of a phase has an entry exactly for each signal whose
  unweighted points are not 0, and its value is the contribution of the signal: the rounded
  product of points and weight, or the penalty for the region. An entry is not 0 when every
  weight is at least 1/10, as the default weights are.
\<close>

theorem breakdown_entries_fired:
  "((k, v) \<in> set (breakdown (computeScore i c w ph))) =
      (k \<in> set SIGNAL_KEYS \<and> signal_points i c k \<noteq> 0 \<and> v = contribution i c w k) \<and>
   ((k, v) \<in> set (breakdown (computeScore i c w ph)) \<longrightarrow> (\<forall>k'. 1 / 10 \<le> w k') \<longrightarrow> v \<noteq> 0)"
  by (auto simp: computeScore_fields set_fired contribution_nonzero)

theorem breakdown_entries_fired_witness:
  "(''email_domain'', 15) \<in> set (breakdown (computeScore
       (minimalLead\<lparr>contact_email := Defined ''john@acme.com''\<rparr>)
       getDefaultScoringConfig (\<lambda>k. 1) Raw)) \<and>
   (\<forall>k'. 1 / 10 \<le> (\<lambda>k. 1 :: rat) k') \<and> (15 :: int) \<noteq> 0"
proof -
  have h1: "(''email_domain'', 15) \<in> set (breakdown (computeScore
       (minimalLead\<lparr>contact_email := Defined ''john@acme.com''\<rparr>)
       getDefaultScoringConfig (\<lambda>k. 1) Raw))"
    by code_simp
  have h2: "\<forall>k'. 1 / 10 \<le> (\<lambda>k. 1 :: rat) k'" by simp
  from breakdown_entries_fired[of "''email_domain''" 15
      "minimalLead\<lparr>contact_email := Defined ''john@acme.com''\<rparr>"
      getDefaultScoringConfig "\<lambda>k. 1" Raw] h1 h2
  show ?thesis by blast
qed

text \<open>
  C4. For every original record and every enrichment, each field of the merged record is
  the original's value when that is present, and the enrichment's value otherwise;
  \<open>company_domain\<close> is the original's, whatever the enrichment holds.
\<close>

theorem mergeEnrichment_fills_gaps:
  "company_domain (mergeEnrichment original enriched) = company_domain original \<and>
   company_name (mergeEnrichment original enriched) =
     (if present (company_name original) then company_name original else company_name enriched) \<and>
   company_industry (mergeEnrichment original enriched) =
     (if present (company_industry original) then company_industry original else company_industry enriched) \<and>
   company_employee_band (mergeEnrichment original enriched) =
     (if present (company_employee_band original) then company_employee_band original else company_employee_band enriched) \<and>
   company_revenue_band (mergeEnrichment original enriched) =
     (if present (company_revenue_band original) then company_revenue_band original else company_revenue_band enriched) \<and>
   company_region (mergeEnrichment original enriched) =
     (if present (company_region original) then company_region original else company_region enriched) \<and>
   company_tech_stack_summary (mergeEnrichment original enriched) =
     (if present (company_tech_stack_summary original) then company_tech_stack_summary original else company_tech_stack_summary enriched) \<and>
   contact_email (mergeEnrichment original enriched) =
     (if present (contact_email original) then contact_email original else contact_email enriched) \<and>
   contact_first_name (mergeEnrichment original enriched) =
     (if present (contact_first_name original) then contact_first_name original else contact_first_name enriched) \<and>
   contact_last_name (mergeEnrichment original enriched) =
     (if present (contact_last_name original) then contact_last_name original else contact_last_name enriched) \<and>
   contact_role_function (mergeEnrichment original enriched) =
     (if present (contact_role_function original) then contact_role_function original else contact_role_function enriched) \<and>
   contact_role_seniority (mergeEnrichment original enriched) =
     (if present (contact_role_seniority original) then contact_role_seniority original else contact_role_seniority enriched) \<and>
   contact_title_raw (mergeEnrichment original enriched) =
     (if present (contact_title_raw original) then contact_title_raw original else contact_title_raw enriched) \<and>
   contact_geo (mergeEnrichment original enriched) =
     (if present (contact_geo original) then contact_geo original else contact_geo enriched) \<and>
   contact_phone (mergeEnrichment original enriched) =
     (if present (contact_phone original) then contact_phone original else contact_phone enriched) \<and>
   primary_use_case (mergeEnrichment original enriched) =
     (if present (primary_use_case original) then primary_use_case original else primary_use_case enriched) \<and>
   estimated_deal_band (mergeEnrichment original enriched) =
     (if present (estimated_deal_band original) then estimated_deal_band original else estimated_deal_band enriched) \<and>
   urgency_band (mergeEnrichment original enriched) =
     (if present (urgency_band original) then urgency_band original else urgency_band enriched) \<and>
   lead_source (mergeEnrichment original enriched) =
     (if present (lead_source original) then lead_source original else lead_source enriched)"
  by (simp add: mergeEnrichment_def nullish_or_present)

theorem mergeEnrichment_fills_gaps_witness:
  "company_domain (mergeEnrichment minimalLead
      (emptyEnrichment\<lparr>company_name := Defined ''Acme'',
                       partial_company_domain := Defined ''other.com''\<rparr>)) = ''example.com'' \<and>
   company_name (mergeEnrichment minimalLead
      (emptyEnrichment\<lparr>company_name := Defined ''Acme'',
                       partial_company_domain := Defined ''other.com''\<rparr>)) = Defined ''Acme'' \<and>
   company_name (mergeEnrichment (minimalLead\<lparr>company_name := Defined ''Initech''\<rparr>)
      (emptyEnrichment\<lparr>company_name := Defined ''Acme''\<rparr>)) = Defined ''Initech''"
  using mergeEnrichment_fills_gaps[of minimalLead
      "emptyEnrichment\<lparr>company_name := Defined ''Acme'',
                       partial_company_domain := Defined ''other.com''\<rparr>"]
    mergeEnrichment_fills_gaps[of "minimalLead\<lparr>company_name := Defined ''Initech''\<rparr>"
      "emptyEnrichment\<lparr>company_name := Defined ''Acme''\<rparr>"]
  by (simp add: minimalLead_def emptyEnrichment_def present_def)



text \<open>
  C6. The claim is that a \<open>region_penalty\<close> of -20 in the enriched breakdown is added to
  the sum of the Fit dimension and so lowers Fit. The loop adds positive values only: for
  a corporate email with an excluded region the Fit sum is 15, not 15 - 20, and Fit is
  not lower than without the penalty.
\<close>

theorem region_penalty_not_in_fit_counterexample:
  "fit (dimension_loop [(''email_domain'', 15), (''region_penalty'', - 20)]
          \<lparr>fit = 0, intent = 0, timing = 0\<rparr>) = 15 \<and>
   \<not> fit (computeDimensions [(''email_domain'', 15), (''region_penalty'', - 20)])
       < fit (computeDimensions [(''email_domain'', 15)])"
  by code_simp

text \<open>
  C6, as amended. The mapping lists \<open>region_penalty\<close> under Fit, but the aggregator sums
  positive values only: a \<open>region_penalty\<close> of -20 anywhere in a breakdown leaves every
  dimension as it is without that entry.
\<close>

theorem computeDimensions_ignores_region_penalty:
  "computeDimensions (b1 @ (''region_penalty'', - 20) # b2) = computeDimensions (b1 @ b2)"
  by (simp add: computeDimensions_def dimension_loop_skip)

text \<open>
  C7. The claim is that every mapper's conversion of an employee count or a revenue to a
  band gives no band for \<open>NaN\<close>. The HubSpot mapper tests for \<open>NaN\<close>; the Salesforce mapper
  does not, and since every comparison with \<open>NaN\<close> is false its conversions fall through
  to the top band.
\<close>

theorem salesforce_band_of_NaN:
  "salesforce_mapEmployeeCountToBand (Defined NaN) = Defined ''1000+'' \<and>
   salesforce_mapRevenueToBand (Defined NaN) = Defined ''250M+'' \<and>
   hubspot_mapEmployeeCountToBand (Defined NaN) = Undefined \<and>
   hubspot_mapRevenueToBand (Defined NaN) = Undefined"
  by (simp add: salesforce_mapEmployeeCountToBand_def salesforce_mapRevenueToBand_def
      hubspot_mapEmployeeCountToBand_def hubspot_mapRevenueToBand_def)



text \<open>
  C10. There are a raw record and an enrichment for which the lift under the default
  configuration is negative: the raw record has the title \<open>Founder\<close> and no seniority,
  the enrichment fills in the seniority \<open>IC\<close>, and the merged record scores 5 for the
  seniority where the raw record scored 30 for its title.
\<close>

theorem enrichment_can_lower_score:
  "\<exists>raw partial.
     contact_role_seniority raw = Undefined \<and>
     contact_title_raw raw = Defined ''Founder'' \<and>
     contact_role_seniority partial = Defined ''IC'' \<and>
     contact_title_raw (mergeEnrichment raw partial) = Defined ''Founder'' \<and>
     map_of (raw_breakdown (scoreLeadDual
       \<lparr>rawLead = raw, enrichedLead = mergeEnrichment raw partial, tenantConfig = None\<rparr>))
         ''seniority'' = Some 30 \<and>
     map_of (score_breakdown (scoreLeadDual
       \<lparr>rawLead = raw, enrichedLead = mergeEnrichment raw partial, tenantConfig = None\<rparr>))
         ''seniority'' = Some 5 \<and>
     lift (scoreLeadDual
       \<lparr>rawLead = raw, enrichedLead = mergeEnrichment raw partial, tenantConfig = None\<rparr>) < 0"
proof -
  let ?raw = "minimalLead\<lparr>contact_title_raw := Defined ''Founder''\<rparr>"
  let ?partial = "emptyEnrichment\<lparr>contact_role_seniority := Defined ''IC''\<rparr>"
  have "contact_role_seniority ?raw = Undefined \<and>
     contact_title_raw ?raw = Defined ''Founder'' \<and>
     contact_role_seniority ?partial = Defined ''IC'' \<and>
     contact_title_raw (mergeEnrichment ?raw ?partial) = Defined ''Founder'' \<and>
     map_of (raw_breakdown (scoreLeadDual
       \<lparr>rawLead = ?raw, enrichedLead = mergeEnrichment ?raw ?partial, tenantConfig = None\<rparr>))
         ''seniority'' = Some 30 \<and>
     map_of (score_breakdown (scoreLeadDual
       \<lparr>rawLead = ?raw, enrichedLead = mergeEnrichment ?raw ?partial, tenantConfig = None\<rparr>))
         ''seniority'' = Some 5 \<and>
     lift (scoreLeadDual
       \<lparr>rawLead = ?raw, enrichedLead = mergeEnrichment ?raw ?partial, tenantConfig = None\<rparr>) < 0"
    by code_simp
  then show ?thesis by blast
qed

end
